theory Spec2Isabelle
  imports Complex_Main "HOL-Library.Word"
begin

unbundle bit_operations_syntax

text \<open>
  A shallow embedding of the telemetry analyser (\<^verbatim>\<open>analyseur_telemetrie.cpp\<close>) and of the
  simulator (\<^verbatim>\<open>simulateur_telemetrie.cpp\<close>) for a six-axis arm, followed by what the two
  programs do: the alert threshold, the validity of a frame, the search for the sync
  marker, decoding, the statistics, the motion of an axis in binary32 arithmetic, and the
  injection of current alerts.
\<close>

section \<open>Protocol constants\<close>

text \<open>
  The constants of the analyser; the simulator declares \<open>SYNC_H\<close>, \<open>SYNC_L\<close> and \<open>NB_AXES\<close>
  with the same values, and \<open>TAILLE_TRAME\<close> as the literal 39. An octet is a \<^verbatim>\<open>uint8_t\<close>; the 16-bit fields
  are \<^verbatim>\<open>int16_t\<close> and \<^verbatim>\<open>uint16_t\<close>, both carried as \<open>16 word\<close> (read with \<open>sint\<close> or
  \<open>unat\<close>). A \<^verbatim>\<open>size_t\<close> counter is a \<open>nat\<close>: no count of this development comes near
  \<open>2 ^ 64\<close>.
\<close>

type_synonym octet = "8 word"

definition SYNC_H :: octet where
  "SYNC_H = 0xAA"

definition SYNC_L :: octet where
  "SYNC_L = 0x55"

definition NB_AXES :: nat where
  "NB_AXES = 6"

definition TAILLE_AXE :: nat where
  "TAILLE_AXE = 6"

definition TAILLE_ENTETE :: nat where
  "TAILLE_ENTETE = 3"

definition TAILLE_TRAME :: nat where
  "TAILLE_TRAME = TAILLE_ENTETE + NB_AXES * TAILLE_AXE"

section \<open>Analyser: data structures\<close>

text \<open>
  A C array \<^verbatim>\<open>T x[NB_AXES]\<close> has exactly six cells, neither more nor fewer, so it is a
  value of a type with six components; \<open>elements\<close> lists them in index order.
\<close>

datatype 'a tableau6 = Tableau6 'a 'a 'a 'a 'a 'a

fun elements :: "'a tableau6 \<Rightarrow> 'a list" where
  "elements (Tableau6 a0 a1 a2 a3 a4 a5) = [a0, a1, a2, a3, a4, a5]"

record DonneesAxe =
  position :: "16 word"
  vitesse :: "16 word"
  courant :: "16 word"

text \<open>The structure \<^verbatim>\<open>Trame\<close> of the analyser declares two arrays, \<^verbatim>\<open>axe1\<close> and \<^verbatim>\<open>axe2\<close>.\<close>

record Trame =
  sync1 :: octet
  sync2 :: octet
  sequence :: octet
  axe1 :: "DonneesAxe tableau6"
  axe2 :: "DonneesAxe tableau6"

record Statistiques =
  octets_lus :: nat
  trames_valides :: nat
  trames_alerte :: nat
  sequence_min :: octet
  sequence_max :: octet
  octets_bruit :: nat

text \<open>The default member initialisers of \<^verbatim>\<open>Statistiques\<close>.\<close>

definition Statistiques_defaut :: Statistiques where
  "Statistiques_defaut =
     \<lparr>octets_lus = 0, trames_valides = 0, trames_alerte = 0,
      sequence_min = 255, sequence_max = 0, octets_bruit = 0\<rparr>"

definition axe_zero :: DonneesAxe where
  "axe_zero = \<lparr>position = 0, vitesse = 0, courant = 0\<rparr>"

definition trame_zero :: Trame where
  "trame_zero =
     \<lparr>sync1 = 0, sync2 = 0, sequence = 0,
      axe1 = Tableau6 axe_zero axe_zero axe_zero axe_zero axe_zero axe_zero,
      axe2 = Tableau6 axe_zero axe_zero axe_zero axe_zero axe_zero axe_zero\<rparr>"

section \<open>Analyser: conversions\<close>

text \<open>
  A \<^verbatim>\<open>float\<close> is read as the real number it denotes. Every \<^verbatim>\<open>uint16_t\<close> converts to
  \<^verbatim>\<open>float\<close> without rounding (24 bits of mantissa), and a comparison of two finite floats
  is the comparison of these reals. The quotient \<^verbatim>\<open>brut/1000.0f\<close> is the binary32 value
  nearest to the real quotient below; the two agree wherever the real quotient is itself
  a binary32 value, as at 1000 and at 5000.
\<close>

definition courant_en_amperes :: "16 word \<Rightarrow> real" where
  "courant_en_amperes brut = real (unat brut) / 1000"

section \<open>Analyser: detection and decoding\<close>

datatype erreur = HorsLimites | AucuneDonnee

text \<open>
  \<^verbatim>\<open>buffer[i]\<close> on the \<open>taille\<close> octets the caller owns: a read at or past the end of the
  object is undefined behaviour in C++, and an error value here.
\<close>

definition lire :: "octet list \<Rightarrow> nat \<Rightarrow> erreur + octet" where
  "lire buffer i = (if i < length buffer then Inr (buffer ! i) else Inl HorsLimites)"

text \<open>
  The loop of \<^verbatim>\<open>trouver_sync\<close>, from index \<open>i\<close>. The operator \<^verbatim>\<open>&&\<close> reads
  \<^verbatim>\<open>buffer[i+1]\<close> only when \<^verbatim>\<open>buffer[i] == SYNC_H\<close>. The index is an \<^verbatim>\<open>int\<close> in the source;
  it is a \<open>nat\<close> here, for buffers below \<open>2 ^ 31\<close> octets.
\<close>

function trouver_sync_boucle :: "octet list \<Rightarrow> nat \<Rightarrow> nat \<Rightarrow> erreur + int" where
  "trouver_sync_boucle buffer taille i =
     (if i < taille then
        (case lire buffer i of
           Inl e \<Rightarrow> Inl e
         | Inr b0 \<Rightarrow>
             if b0 = SYNC_H then
               (case lire buffer (i + 1) of
                  Inl e \<Rightarrow> Inl e
                | Inr b1 \<Rightarrow>
                    if b1 = SYNC_L then Inr (int i)
                    else trouver_sync_boucle buffer taille (i + 1))
             else trouver_sync_boucle buffer taille (i + 1))
      else Inr (- 1))"
  by pat_completeness auto
termination
  by (relation "measure (\<lambda>(buffer, taille, i). taille - i)") auto

definition trouver_sync :: "octet list \<Rightarrow> nat \<Rightarrow> nat \<Rightarrow> erreur + int" where
  "trouver_sync buffer taille debut = trouver_sync_boucle buffer taille debut"

text \<open>
  \<^verbatim>\<open>sizeof(trame)\<close> in \<^verbatim>\<open>trame_valide\<close> is the size of its argument, a pointer
  \<^verbatim>\<open>const Trame*\<close>: a constant of the target (8 on a 64-bit one, 4 on a 32-bit one),
  taken as the parameter \<open>sizeof_trame\<close>.
\<close>

definition trame_valide :: "nat \<Rightarrow> Trame \<Rightarrow> bool" where
  "trame_valide sizeof_trame trame =
     (if sync1 trame = 0xAA \<and> sync2 trame = 0x55 \<and> sizeof_trame = 39 then True else False)"

text \<open>
  The body of \<^verbatim>\<open>decoder_trame\<close> holds no statement: the structure passed by reference
  is left as it was, and control reaches the end of the function with no value returned
  (\<open>None\<close>).
\<close>

definition decoder_trame :: "octet list \<Rightarrow> Trame \<Rightarrow> Trame \<times> bool option" where
  "decoder_trame buffer trame = (trame, None)"

section \<open>Analyser: analysis\<close>

text \<open>The comparison promotes \<^verbatim>\<open>axe.courant\<close>, in milliamperes, to \<^verbatim>\<open>float\<close>.\<close>

definition est_en_alerte :: "DonneesAxe \<Rightarrow> real \<Rightarrow> bool" where
  "est_en_alerte axe seuil = (if real (unat (courant axe)) > seuil then True else False)"

text \<open>The body of \<^verbatim>\<open>analyser_trame\<close> is the single statement \<^verbatim>\<open>return false\<close>.\<close>

definition analyser_trame :: "Trame \<Rightarrow> Statistiques \<Rightarrow> real \<Rightarrow> Statistiques \<times> bool" where
  "analyser_trame trame stats seuil = (stats, False)"

section \<open>Analyser: report and main program\<close>

text \<open>
  The summary written by \<^verbatim>\<open>ecrire_statistiques\<close>, as the list of the numbers it prints, each
  with the field its label names, in the order written. The separator lines and the
  spelling of the labels are left out.
\<close>

datatype champ =
  OctetsLus | OctetsBruit | TramesValides | TramesAlerte | SequenceMin | SequenceMax

definition ecrire_statistiques :: "Statistiques \<Rightarrow> (champ \<times> nat) list" where
  "ecrire_statistiques stats =
     [(OctetsLus, octets_lus stats),
      (OctetsBruit, octets_bruit stats),
      (TramesValides, trames_valides stats),
      (TramesAlerte, trames_alerte stats)]
     @ (if trames_valides stats > 0 then
          [(SequenceMin, unat (sequence_min stats)),
           (SequenceMax, unat (sequence_max stats))]
        else [])"

text \<open>
  The part of \<^verbatim>\<open>main\<close> headed "Traitement des trames": the statistics are created, the
  size of the buffer is stored, and no statement follows before the summary is written.
\<close>

definition main_traitement :: "octet list \<Rightarrow> Statistiques" where
  "main_traitement buffer = Statistiques_defaut\<lparr>octets_lus := length buffer\<rparr>"

text \<open>The threshold \<^verbatim>\<open>main\<close> uses when none is given on the command line.\<close>

definition seuil_courant_defaut :: real where
  "seuil_courant_defaut = 5.0"

text \<open>
  \<^verbatim>\<open>main\<close> from the buffer read to its exit: an empty buffer is the error exit, any other
  one yields the statistics and the summary. The parsing of the arguments, the opening of
  the report file and the unfinished statement \<^verbatim>\<open>std::cout << buffer <<\<close> that precedes the
  read are left out.
\<close>

definition main_analyseur :: "octet list \<Rightarrow> erreur + (Statistiques \<times> (champ \<times> nat) list)" where
  "main_analyseur buffer =
     (if buffer = [] then Inl AucuneDonnee
      else (let stats = main_traitement buffer in Inr (stats, ecrire_statistiques stats)))"

section \<open>Binary32 arithmetic\<close>

text \<open>
  The simulator computes in \<^verbatim>\<open>float\<close>. A finite \<^verbatim>\<open>float\<close> is the real number it denotes, and
  every arithmetic operation of the source is the exact operation followed by \<open>arrondi32\<close>,
  rounding to the nearest binary32 value, ties to the even mantissa: 24 bits of mantissa,
  exponents from -126 to 127, subnormal values below \<open>2 powi - 126\<close>. Each operation is
  rounded on its own (no fused multiply-add, no wider intermediate format). A result
  whose magnitude passes the largest binary32 value stays a real number here instead of
  becoming infinite; it compares with every finite value as the infinity would.

  \<open>expo_haut n x\<close> counts the halvings that bring \<open>x \<ge> 1\<close> below 2 and \<open>expo_bas n x\<close> the
  doublings that bring \<open>x < 1\<close> up to 1, both at most \<open>n\<close>.
\<close>

fun expo_haut :: "nat \<Rightarrow> real \<Rightarrow> nat" where
  "expo_haut 0 x = 0"
| "expo_haut (Suc n) x = (if x < 2 then 0 else Suc (expo_haut n (x / 2)))"

fun expo_bas :: "nat \<Rightarrow> real \<Rightarrow> nat" where
  "expo_bas 0 x = 0"
| "expo_bas (Suc n) x = (if 1 \<le> x then 0 else Suc (expo_bas n (2 * x)))"

definition exposant :: "real \<Rightarrow> int" where
  "exposant x =
     (if 1 \<le> \<bar>x\<bar> then int (expo_haut 127 \<bar>x\<bar>) else - int (expo_bas 126 \<bar>x\<bar>))"

text \<open>The unit in the last place of the binary32 values around \<open>x\<close>.\<close>

definition ulp32 :: "real \<Rightarrow> real" where
  "ulp32 x = 2 powi (exposant x - 23)"

text \<open>The nearest integer, a tie going to the even one.\<close>

definition arrondi_pair :: "real \<Rightarrow> int" where
  "arrondi_pair z =
     (let f = \<lfloor>z\<rfloor>; r = z - of_int f
      in if r < 1 / 2 then f else if 1 / 2 < r then f + 1 else if even f then f else f + 1)"

definition arrondi32 :: "real \<Rightarrow> real" where
  "arrondi32 x = sgn x * (ulp32 x * of_int (arrondi_pair (\<bar>x\<bar> / ulp32 x)))"

text \<open>
  \<^verbatim>\<open>std::uniform_real_distribution<float>(a, b)\<close> applied to the generator: the library
  computes \<^verbatim>\<open>canonical * (b - a) + a\<close> in \<^verbatim>\<open>float\<close>, where \<open>canonical\<close> is the draw of
  \<^verbatim>\<open>std::generate_canonical<float, 24>\<close>, a \<^verbatim>\<open>float\<close> in \<open>[0, 1)\<close> that is \<open>1 - 1 / 2 ^ 24\<close> at
  most. The canonical draw is the input \<open>u\<close>.
\<close>

definition uniforme :: "real \<Rightarrow> real \<Rightarrow> real \<Rightarrow> real" where
  "uniforme a b u = arrondi32 (arrondi32 (u * arrondi32 (b - a)) + a)"

text \<open>
  \<^verbatim>\<open>std::normal_distribution<float>(moyenne, ecart)\<close> applied to the generator: the library
  computes \<^verbatim>\<open>z * ecart + moyenne\<close> in \<^verbatim>\<open>float\<close> from a standard normal variate \<open>z\<close>, the input.
\<close>

definition normale :: "real \<Rightarrow> real \<Rightarrow> real \<Rightarrow> real" where
  "normale moyenne ecart z = arrondi32 (arrondi32 (z * ecart) + moyenne)"

section \<open>Simulator: motion of one axis\<close>

definition POSITION_MIN_DEG :: "real list" where
  "POSITION_MIN_DEG = [- 170, - 90, - 80, - 190, - 120, - 360]"

definition POSITION_MAX_DEG :: "real list" where
  "POSITION_MAX_DEG = [170, 110, 280, 190, 120, 360]"

definition VITESSE_MAX_DEG_S :: "real list" where
  "VITESSE_MAX_DEG_S = [250, 250, 250, 430, 430, 630]"

definition COURANT_NOMINAL_A :: "real list" where
  "COURANT_NOMINAL_A = [8, 6, 4, 2, 2, 1.5]"

record EtatAxe =
  position_deg :: real
  vitesse_deg_s :: real
  position_cible :: real
  courant_base_a :: real

text \<open>
  The draws one call of \<^verbatim>\<open>simuler_axe\<close> can make: the canonical draw compared with 0.02
  (made when the axis is within one degree of its target), the canonical draw of the new
  target (made when the first one is below 0.02), and the standard normal variate of the
  noise on the current.
\<close>

record TiragesAxe =
  tirage_decision :: real
  tirage_cible :: real
  tirage_bruit :: real

definition nouvelle_cible :: "real \<Rightarrow> nat \<Rightarrow> EtatAxe \<Rightarrow> EtatAxe" where
  "nouvelle_cible u axe a =
     a\<lparr>position_cible :=
         uniforme (arrondi32 (POSITION_MIN_DEG ! axe * arrondi32 0.8))
           (arrondi32 (POSITION_MAX_DEG ! axe * arrondi32 0.8)) u\<rparr>"

text \<open>
  \<^verbatim>\<open>simuler_axe\<close> in its three parts, for a time step \<open>dt\<close> (the field \<^verbatim>\<open>sim.dt\<close>, finite and
  positive) and an index \<open>axe\<close> below \<open>NB_AXES\<close>. First the target, the velocity and the
  position, up to the line \<^verbatim>\<open>a.position_deg += a.vitesse_deg_s * sim.dt\<close>. The position error
  is computed again after a new target is drawn, and kept otherwise; it is the same
  expression of the state either way.
\<close>

definition simuler_mouvement :: "real \<Rightarrow> TiragesAxe \<Rightarrow> nat \<Rightarrow> EtatAxe \<Rightarrow> EtatAxe" where
  "simuler_mouvement dt t axe a0 =
     (let erreur0 = arrondi32 (position_cible a0 - position_deg a0);
          a = (if \<bar>erreur0\<bar> < 1 \<and> uniforme 0 1 (tirage_decision t) < arrondi32 0.02
               then nouvelle_cible (tirage_cible t) axe a0 else a0);
          erreur = arrondi32 (position_cible a - position_deg a);
          vitesse_desiree0 = arrondi32 (erreur * 2);
          v_max = VITESSE_MAX_DEG_S ! axe;
          vitesse_desiree1 = (if vitesse_desiree0 > v_max then v_max else vitesse_desiree0);
          vitesse_desiree = (if vitesse_desiree1 < - v_max then - v_max else vitesse_desiree1);
          acc_max = arrondi32 (v_max * 2);
          delta_v0 = arrondi32 (vitesse_desiree - vitesse_deg_s a);
          delta_v_max = arrondi32 (acc_max * dt);
          delta_v1 = (if delta_v0 > delta_v_max then delta_v_max else delta_v0);
          delta_v = (if delta_v1 < - delta_v_max then - delta_v_max else delta_v1);
          vitesse = arrondi32 (vitesse_deg_s a + delta_v);
          position = arrondi32 (position_deg a + arrondi32 (vitesse * dt))
      in a\<lparr>vitesse_deg_s := vitesse, position_deg := position\<rparr>)"

text \<open>Then the two position limits.\<close>

definition simuler_butees :: "nat \<Rightarrow> EtatAxe \<Rightarrow> EtatAxe" where
  "simuler_butees axe a =
     (let a1 = (if position_deg a < POSITION_MIN_DEG ! axe
                then a\<lparr>position_deg := POSITION_MIN_DEG ! axe, vitesse_deg_s := 0\<rparr> else a)
      in if position_deg a1 > POSITION_MAX_DEG ! axe
         then a1\<lparr>position_deg := POSITION_MAX_DEG ! axe, vitesse_deg_s := 0\<rparr> else a1)"

text \<open>Then the current, its noise and its floor at zero.\<close>

definition simuler_courant :: "real \<Rightarrow> nat \<Rightarrow> EtatAxe \<Rightarrow> EtatAxe" where
  "simuler_courant z axe a =
     (let ratio_vitesse = arrondi32 (\<bar>vitesse_deg_s a\<bar> / (VITESSE_MAX_DEG_S ! axe));
          courant0 =
            arrondi32 (COURANT_NOMINAL_A ! axe
              * arrondi32 (arrondi32 0.1 + arrondi32 (arrondi32 0.9 * ratio_vitesse)));
          bruit = normale 0 (arrondi32 (courant0 * arrondi32 0.05)) z;
          courant1 = arrondi32 (courant0 + bruit)
      in a\<lparr>courant_base_a := (if courant1 < 0 then 0 else courant1)\<rparr>)"

definition simuler_axe :: "real \<Rightarrow> TiragesAxe \<Rightarrow> nat \<Rightarrow> EtatAxe \<Rightarrow> EtatAxe" where
  "simuler_axe dt t axe a =
     simuler_courant (tirage_bruit t) axe (simuler_butees axe (simuler_mouvement dt t axe a))"

text \<open>
  The state of an axis within its limits: the position between the two limits, the
  magnitude of the velocity at most the maximum, the current not negative.
\<close>

definition invariant_axe :: "nat \<Rightarrow> EtatAxe \<Rightarrow> bool" where
  "invariant_axe axe a =
     (POSITION_MIN_DEG ! axe \<le> position_deg a \<and> position_deg a \<le> POSITION_MAX_DEG ! axe \<and>
      \<bar>vitesse_deg_s a\<bar> \<le> VITESSE_MAX_DEG_S ! axe \<and> 0 \<le> courant_base_a a)"

text \<open>
  The same with one unit in the last place more for the velocity: \<open>250 + 1 / 2 ^ 16\<close>,
  \<open>430 + 1 / 2 ^ 15\<close> and \<open>630 + 1 / 2 ^ 14\<close> degrees per second.
\<close>

definition VITESSE_TOLEREE :: "nat \<Rightarrow> real" where
  "VITESSE_TOLEREE axe = VITESSE_MAX_DEG_S ! axe + ulp32 (VITESSE_MAX_DEG_S ! axe)"

definition invariant_arrondi :: "nat \<Rightarrow> EtatAxe \<Rightarrow> bool" where
  "invariant_arrondi axe a =
     (POSITION_MIN_DEG ! axe \<le> position_deg a \<and> position_deg a \<le> POSITION_MAX_DEG ! axe \<and>
      \<bar>vitesse_deg_s a\<bar> \<le> VITESSE_TOLEREE axe \<and> 0 \<le> courant_base_a a)"

section \<open>Simulator: frame generation\<close>

text \<open>
  \<^verbatim>\<open>generer_trame\<close> reads two fields of the simulator for the octets it writes: the sequence
  counter and the alert probability. The states of the axes are \<^verbatim>\<open>float\<close> values advanced by
  \<^verbatim>\<open>simuler_axe\<close>, modelled above; the three raw integers obtained from each axis by the
  \<^verbatim>\<open>static_cast\<close>s of the loop are taken as the parameter \<open>bruts\<close>.
  The two fields carry the prefix \<open>sim_\<close>, \<open>sequence\<close> being a field of \<open>Trame\<close> as well.
\<close>

record Simulateur =
  sim_sequence :: octet
  sim_prob_alerte :: real

record Bruts =
  position_brut :: "16 word"
  vitesse_brut :: "16 word"
  courant_brut :: "16 word"

text \<open>
  The three draws \<^verbatim>\<open>generer_trame\<close> makes for the alert: the canonical draw of \<^verbatim>\<open>dist_alerte\<close>,
  the integer \<^verbatim>\<open>dist_axe\<close> returns, uniform on \<open>0..NB_AXES - 1\<close>, and the canonical draw of
  \<^verbatim>\<open>dist_courant\<close>. The last two are made only when the alert is injected.
\<close>

record Tirages =
  tirage_alerte :: real
  tirage_axe :: int
  tirage_courant :: real

definition tirages_valides :: "Tirages \<Rightarrow> bool" where
  "tirages_valides t =
     (0 \<le> tirage_alerte t \<and> tirage_alerte t < 1 \<and>
      0 \<le> tirage_axe t \<and> tirage_axe t \<le> int NB_AXES - 1 \<and>
      0 \<le> tirage_courant t \<and> tirage_courant t < 1)"

text \<open>
  \<^verbatim>\<open>static_cast<uint16_t>\<close> of a \<^verbatim>\<open>float\<close> drops the fractional part; the value is defined in
  C++ when the result lies in \<open>0..65535\<close>.
\<close>

definition cast_uint16 :: "real \<Rightarrow> 16 word" where
  "cast_uint16 x = word_of_int (if 0 \<le> x then \<lfloor>x\<rfloor> else - \<lfloor>- x\<rfloor>)"

text \<open>
  The buffer is the array the caller owns (39 octets in \<^verbatim>\<open>main\<close>) and a pointer into it is
  an offset; a write is a list update.
\<close>

definition ecrire_uint16_le :: "octet list \<Rightarrow> nat \<Rightarrow> 16 word \<Rightarrow> octet list" where
  "ecrire_uint16_le buffer p valeur =
     (buffer[p := ucast (valeur AND 0xFF)])[p + 1 := ucast (drop_bit 8 valeur AND 0xFF)]"

function generer_trame_boucle ::
  "(nat \<Rightarrow> Bruts) \<Rightarrow> int \<Rightarrow> 16 word \<Rightarrow> nat \<Rightarrow> nat \<Rightarrow> octet list \<Rightarrow> octet list" where
  "generer_trame_boucle bruts axe_alerte courant_alerte i ptr buffer =
     (if i < NB_AXES then
        (let courant = (if int i = axe_alerte then courant_alerte else courant_brut (bruts i));
             buffer1 = ecrire_uint16_le buffer ptr (position_brut (bruts i));
             buffer2 = ecrire_uint16_le buffer1 (ptr + 2) (vitesse_brut (bruts i));
             buffer3 = ecrire_uint16_le buffer2 (ptr + 4) courant
         in generer_trame_boucle bruts axe_alerte courant_alerte (i + 1) (ptr + 6) buffer3)
      else buffer)"
  by pat_completeness auto
termination
  by (relation "measure (\<lambda>(bruts, axe_alerte, courant_alerte, i, ptr, buffer). NB_AXES - i)") auto

definition generer_trame ::
  "Simulateur \<Rightarrow> Tirages \<Rightarrow> (nat \<Rightarrow> Bruts) \<Rightarrow> octet list \<Rightarrow> Simulateur \<times> octet list" where
  "generer_trame sim tirages bruts buffer =
     (let buffer0 = buffer[0 := SYNC_H, 1 := SYNC_L, 2 := sim_sequence sim];
          sim' = sim\<lparr>sim_sequence := sim_sequence sim + 1\<rparr>;
          alerte = uniforme 0 1 (tirage_alerte tirages) < sim_prob_alerte sim;
          axe_alerte = (if alerte then tirage_axe tirages else - 1);
          courant_alerte =
            (if alerte then cast_uint16 (uniforme 5500 8000 (tirage_courant tirages)) else 0)
      in (sim', generer_trame_boucle bruts axe_alerte courant_alerte 0 3 buffer0))"

section \<open>Concrete inputs\<close>

text \<open>
  A simulator at sequence number 5 with the default alert probability; every axis at
  1.00 degree, -0.1 degree per second and 1000 mA; one set of draws that injects an alert
  of 6125 mA on the axis of index 2, one that injects none, and one that injects an alert
  with the largest canonical draw for the current.
\<close>

definition sim_exemple :: Simulateur where
  "sim_exemple = \<lparr>sim_sequence = 5, sim_prob_alerte = 0.02\<rparr>"

definition bruts_exemple :: "nat \<Rightarrow> Bruts" where
  "bruts_exemple i = \<lparr>position_brut = 100, vitesse_brut = - 1, courant_brut = 1000\<rparr>"

definition tirages_alerte :: Tirages where
  "tirages_alerte = \<lparr>tirage_alerte = 1 / 128, tirage_axe = 2, tirage_courant = 1 / 4\<rparr>"

definition tirages_calme :: Tirages where
  "tirages_calme = \<lparr>tirage_alerte = 0.5, tirage_axe = 0, tirage_courant = 0\<rparr>"

definition tirages_8000 :: Tirages where
  "tirages_8000 = \<lparr>tirage_alerte = 0, tirage_axe = 2, tirage_courant = 1 - 1 / 2 ^ 24\<rparr>"

text \<open>The frame the simulator writes from that state when no alert is injected.\<close>

definition trame_exemple :: "octet list" where
  "trame_exemple = snd (generer_trame sim_exemple tirages_calme bruts_exemple (replicate 39 0))"

text \<open>Nine frames with correct sync octets whose sequence numbers run from 250 over 255 to 2.\<close>

definition trames_250_a_2 :: "Trame list" where
  "trames_250_a_2 =
     map (\<lambda>s. trame_zero\<lparr>sync1 := 0xAA, sync2 := 0x55, sequence := s\<rparr>)
       [250, 251, 252, 253, 254, 255, 0, 1, 2]"



section \<open>Rounding to binary32\<close>

lemma expo_haut_bornes:
  "1 \<le> x \<Longrightarrow> x < 2 ^ Suc n \<Longrightarrow> 2 ^ expo_haut n x \<le> x \<and> x < 2 ^ Suc (expo_haut n x)"
proof (induction n arbitrary: x)
  case 0
  then show ?case
    by simp
next
  case (Suc n)
  show ?case
  proof (cases "x < 2")
    case True
    with Suc.prems show ?thesis
      by simp
  next
    case False
    then have "1 \<le> x / 2"
      by simp
    moreover have "x / 2 < 2 ^ Suc n"
      using Suc.prems(2) by simp
    ultimately have "2 ^ expo_haut n (x / 2) \<le> x / 2 \<and> x / 2 < 2 ^ Suc (expo_haut n (x / 2))"
      by (rule Suc.IH)
    with False show ?thesis
      by simp
  qed
qed

lemma expo_haut_le: "expo_haut n x \<le> n"
  by (induction n arbitrary: x) simp_all

lemma expo_bas_le: "expo_bas n x \<le> n"
  by (induction n arbitrary: x) simp_all

lemma expo_bas_bornes:
  "0 \<le> x \<Longrightarrow> x < 2 \<Longrightarrow>
   2 ^ expo_bas n x * x < 2 \<and> (expo_bas n x < n \<longrightarrow> 1 \<le> 2 ^ expo_bas n x * x)"
proof (induction n arbitrary: x)
  case 0
  then show ?case
    by simp
next
  case (Suc n)
  show ?case
  proof (cases "1 \<le> x")
    case True
    with Suc.prems show ?thesis
      by simp
  next
    case False
    then have a: "2 * x < 2"
      by simp
    have b: "0 \<le> 2 * x"
      using Suc.prems(1) by simp
    have "2 ^ expo_bas n (2 * x) * (2 * x) < 2 \<and>
        (expo_bas n (2 * x) < n \<longrightarrow> 1 \<le> 2 ^ expo_bas n (2 * x) * (2 * x))"
      by (rule Suc.IH [OF b a])
    with False show ?thesis
      by (simp add: mult_ac)
  qed
qed

lemma exposant_bornes: "- 126 \<le> exposant x \<and> exposant x \<le> 127"
  using expo_haut_le [of 127 "\<bar>x\<bar>"] expo_bas_le [of 126 "\<bar>x\<bar>"]
  by (simp add: exposant_def)

text \<open>The exponent brackets the magnitude: \<open>2 powi e \<le> \<bar>x\<bar> < 2 powi (e + 1)\<close>.\<close>

lemma exposant_haut:
  assumes "\<bar>x\<bar> < 2 powi 128"
  shows "\<bar>x\<bar> < 2 powi (exposant x + 1)"
proof (cases "1 \<le> \<bar>x\<bar>")
  case True
  have "\<bar>x\<bar> < 2 ^ Suc 127"
    using assms by simp
  from expo_haut_bornes [OF True this]
  have "\<bar>x\<bar> < 2 ^ Suc (expo_haut 127 \<bar>x\<bar>)"
    by simp
  also have "\<dots> = 2 powi (int (expo_haut 127 \<bar>x\<bar>) + 1)"
    by (simp add: power_int_add)
  finally show ?thesis
    using True by (simp add: exposant_def)
next
  case False
  then have lt: "\<bar>x\<bar> < 2"
    by simp
  let ?m = "expo_bas 126 \<bar>x\<bar>"
  from expo_bas_bornes [OF _ lt, of 126] have "2 ^ ?m * \<bar>x\<bar> < 2"
    by simp
  then have "\<bar>x\<bar> < 2 / 2 ^ ?m"
    by (simp add: field_simps)
  also have "\<dots> = 2 powi (- int ?m + 1)"
  proof -
    have "(2::real) powi (- int ?m + 1) = 2 powi (- int ?m) * 2"
      by (rule power_int_add_1) simp
    also have "(2::real) powi (- int ?m) = inverse (2 ^ ?m)"
      by (simp add: power_int_minus)
    finally show ?thesis
      by (simp add: field_simps)
  qed
  finally show ?thesis
    using False by (simp add: exposant_def)
qed

lemma exposant_bas:
  assumes "- 126 < exposant x"
  shows "2 powi exposant x \<le> \<bar>x\<bar>"
proof (cases "1 \<le> \<bar>x\<bar>")
  case True
  show ?thesis
  proof (cases "\<bar>x\<bar> < 2 ^ Suc 127")
    case lt: True
    from expo_haut_bornes [OF True lt] show ?thesis
      using True by (simp add: exposant_def)
  next
    case False
    have "(2::real) ^ expo_haut 127 \<bar>x\<bar> \<le> 2 ^ 127"
      by (rule power_increasing [OF expo_haut_le]) simp
    also have "\<dots> \<le> \<bar>x\<bar>"
      using False by simp
    finally show ?thesis
      using True by (simp add: exposant_def)
  qed
next
  case False
  then have lt: "\<bar>x\<bar> < 2"
    by simp
  let ?m = "expo_bas 126 \<bar>x\<bar>"
  have "?m < 126"
    using assms False by (simp add: exposant_def)
  with expo_bas_bornes [OF _ lt, of 126] have "1 \<le> 2 ^ ?m * \<bar>x\<bar>"
    by simp
  then have "1 / 2 ^ ?m \<le> \<bar>x\<bar>"
    by (simp add: field_simps)
  moreover have "2 powi (- int ?m) = (1::real) / 2 ^ ?m"
    by (simp add: power_int_minus field_simps)
  ultimately show ?thesis
    using False by (simp add: exposant_def)
qed

lemma exposant_mono:
  assumes "\<bar>x\<bar> \<le> \<bar>b\<bar>" and "\<bar>b\<bar> < 2 powi 128"
  shows "exposant x \<le> exposant b"
proof (rule ccontr)
  assume "\<not> exposant x \<le> exposant b"
  then have gt: "exposant b + 1 \<le> exposant x"
    by simp
  then have "- 126 < exposant x"
    using exposant_bornes [of b] by simp
  then have "2 powi exposant x \<le> \<bar>x\<bar>"
    by (rule exposant_bas)
  moreover have "\<bar>b\<bar> < 2 powi (exposant b + 1)"
    by (rule exposant_haut [OF assms(2)])
  moreover have "(2::real) powi (exposant b + 1) \<le> 2 powi exposant x"
    by (rule power_int_increasing [OF gt]) simp
  ultimately show False
    using assms(1) by simp
qed

lemma exposant_minus [simp]: "exposant (- x) = exposant x"
  by (simp add: exposant_def)

lemma ulp32_minus [simp]: "ulp32 (- x) = ulp32 x"
  by (simp add: ulp32_def)

lemma ulp32_pos: "0 < ulp32 x"
  by (simp add: ulp32_def)

lemma ulp32_fois_2_23: "ulp32 x * 2 ^ 23 = 2 powi exposant x"
proof -
  have "(2::real) powi (exposant x - 23 + 23) = 2 powi (exposant x - 23) * 2 powi 23"
    by (rule power_int_add) simp
  then show ?thesis
    by (simp add: ulp32_def)
qed

lemma ulp32_fois_2_24: "ulp32 x * 2 ^ 24 = 2 powi (exposant x + 1)"
proof -
  have "(2::real) powi (exposant x - 23 + 24) = 2 powi (exposant x - 23) * 2 powi 24"
    by (rule power_int_add) simp
  moreover have "exposant x - 23 + 24 = exposant x + 1"
    by simp
  ultimately show ?thesis
    by (simp add: ulp32_def)
qed

lemma arrondi_pair_floor: "\<lfloor>z\<rfloor> \<le> arrondi_pair z"
  by (simp add: arrondi_pair_def Let_def)

lemma arrondi_pair_ceiling: "arrondi_pair z \<le> \<lceil>z\<rceil>"
proof -
  have "\<lfloor>z\<rfloor> + 1 \<le> \<lceil>z\<rceil>" if "z \<noteq> of_int \<lfloor>z\<rfloor>"
    using that by (metis ceiling_altdef order_refl)
  moreover have "z \<noteq> of_int \<lfloor>z\<rfloor>" if "0 < z - of_int \<lfloor>z\<rfloor>"
    using that by simp
  ultimately show ?thesis
    by (auto simp: arrondi_pair_def Let_def not_less intro: floor_le_ceiling)
qed


lemma arrondi_pair_0 [simp]: "arrondi_pair 0 = 0"
  by (simp add: arrondi_pair_def)

lemma arrondi32_0 [simp]: "arrondi32 0 = 0"
  by (simp add: arrondi32_def)

lemma arrondi32_minus: "arrondi32 (- x) = - arrondi32 x"
  by (simp add: arrondi32_def sgn_real_def)

lemma arrondi32_pos_eq:
  "0 \<le> x \<Longrightarrow> arrondi32 x = ulp32 x * of_int (arrondi_pair (x / ulp32 x))"
  by (cases "x = 0") (simp_all add: arrondi32_def sgn_real_def)

lemma arrondi32_nonneg:
  assumes "0 \<le> x"
  shows "0 \<le> arrondi32 x"
proof -
  have "0 \<le> \<bar>x\<bar> / ulp32 x"
    using ulp32_pos [of x] by simp
  then have "0 \<le> \<lfloor>\<bar>x\<bar> / ulp32 x\<rfloor>"
    by simp
  then have "0 \<le> arrondi_pair (\<bar>x\<bar> / ulp32 x)"
    using arrondi_pair_floor [of "\<bar>x\<bar> / ulp32 x"] by linarith
  then show ?thesis
    using assms ulp32_pos [of x] by (simp add: arrondi32_def sgn_real_def)
qed

text \<open>Rounding does not step over a binary32 value: from below a bound it stays below.\<close>

lemma arrondi32_sous_representable:
  assumes "0 \<le> x" and "x \<le> b" and "b < 2 powi 128" and "arrondi32 b = b"
  shows "arrondi32 x \<le> b"
proof -
  have b0: "0 \<le> b"
    using assms(1,2) by simp
  have le: "exposant x \<le> exposant b"
    using assms(1-3) b0 by (intro exposant_mono) simp_all
  have rx: "arrondi32 x = ulp32 x * of_int (arrondi_pair (x / ulp32 x))"
    by (rule arrondi32_pos_eq [OF assms(1)])
  show ?thesis
  proof (cases "exposant x = exposant b")
    case True
    then have u: "ulp32 x = ulp32 b"
      by (simp add: ulp32_def)
    let ?k = "arrondi_pair (b / ulp32 b)"
    have bk: "b = ulp32 b * of_int ?k"
      using assms(4) arrondi32_pos_eq [OF b0] by simp
    then have "b / ulp32 b = of_int ?k"
      using ulp32_pos [of b] by (metis nonzero_mult_div_cancel_left less_irrefl)
    moreover have "x / ulp32 x \<le> b / ulp32 b"
      unfolding u using assms(2) ulp32_pos [of b] by (simp add: divide_right_mono)
    ultimately have "x / ulp32 x \<le> of_int ?k"
      by simp
    then have "\<lceil>x / ulp32 x\<rceil> \<le> ?k"
      by (simp add: ceiling_le_iff)
    then have "arrondi_pair (x / ulp32 x) \<le> ?k"
      using arrondi_pair_ceiling [of "x / ulp32 x"] by linarith
    then have "ulp32 x * of_int (arrondi_pair (x / ulp32 x)) \<le> ulp32 x * of_int ?k"
      using ulp32_pos [of x] by (simp add: mult_left_mono)
    then show ?thesis
      unfolding rx using bk u by simp
  next
    case False
    with le have lt: "exposant x + 1 \<le> exposant b"
      by simp
    have "x < 2 powi 128"
      using assms(2,3) by simp
    then have "\<bar>x\<bar> < 2 powi (exposant x + 1)"
      using assms(1) by (intro exposant_haut) simp
    then have "x < ulp32 x * 2 ^ 24"
      using assms(1) ulp32_fois_2_24 [of x] by simp
    then have "x / ulp32 x \<le> 2 ^ 24"
      using ulp32_pos [of x] by (simp add: field_simps)
    then have "x / ulp32 x \<le> of_int (2 ^ 24)"
      by simp
    then have "\<lceil>x / ulp32 x\<rceil> \<le> 2 ^ 24"
      by (simp only: ceiling_le_iff)
    then have "arrondi_pair (x / ulp32 x) \<le> 2 ^ 24"
      using arrondi_pair_ceiling [of "x / ulp32 x"] by linarith
    then have "(of_int (arrondi_pair (x / ulp32 x)) :: real) \<le> of_int (2 ^ 24)"
      by (simp only: of_int_le_iff)
    then have "ulp32 x * of_int (arrondi_pair (x / ulp32 x)) \<le> ulp32 x * 2 ^ 24"
      using ulp32_pos [of x] by (simp add: mult_left_mono)
    also have "\<dots> = 2 powi (exposant x + 1)"
      by (rule ulp32_fois_2_24)
    also have "\<dots> \<le> 2 powi exposant b"
      by (rule power_int_increasing [OF lt]) simp
    also have "\<dots> \<le> \<bar>b\<bar>"
      using lt exposant_bornes [of x] by (intro exposant_bas) simp
    finally show ?thesis
      unfolding rx using b0 by simp
  qed
qed

text \<open>And from above a binary32 value it stays above.\<close>

lemma arrondi32_sur_representable:
  assumes "0 \<le> a" and "a \<le> x" and "x < 2 powi 128" and "arrondi32 a = a"
  shows "a \<le> arrondi32 x"
proof -
  have x0: "0 \<le> x"
    using assms(1,2) by simp
  have le: "exposant a \<le> exposant x"
    using assms(1-3) x0 by (intro exposant_mono) simp_all
  have rx: "arrondi32 x = ulp32 x * of_int (arrondi_pair (x / ulp32 x))"
    by (rule arrondi32_pos_eq [OF x0])
  show ?thesis
  proof (cases "exposant a = exposant x")
    case True
    then have u: "ulp32 a = ulp32 x"
      by (simp add: ulp32_def)
    let ?k = "arrondi_pair (a / ulp32 a)"
    have ak: "a = ulp32 a * of_int ?k"
      using assms(4) arrondi32_pos_eq [OF assms(1)] by simp
    then have "a / ulp32 a = of_int ?k"
      using ulp32_pos [of a] by (metis nonzero_mult_div_cancel_left less_irrefl)
    moreover have "a / ulp32 a \<le> x / ulp32 x"
      unfolding u using assms(2) ulp32_pos [of x] by (simp add: divide_right_mono)
    ultimately have "of_int ?k \<le> x / ulp32 x"
      by simp
    then have "?k \<le> \<lfloor>x / ulp32 x\<rfloor>"
      by (simp add: le_floor_iff)
    then have "?k \<le> arrondi_pair (x / ulp32 x)"
      using arrondi_pair_floor [of "x / ulp32 x"] by linarith
    then have "ulp32 x * of_int ?k \<le> ulp32 x * of_int (arrondi_pair (x / ulp32 x))"
      using ulp32_pos [of x] by (simp add: mult_left_mono)
    then show ?thesis
      unfolding rx using ak u by simp
  next
    case False
    with le have lt: "exposant a + 1 \<le> exposant x"
      by simp
    have "a < 2 powi 128"
      using assms(2,3) by simp
    then have "\<bar>a\<bar> < 2 powi (exposant a + 1)"
      using assms(1) by (intro exposant_haut) simp
    also have "\<dots> \<le> 2 powi exposant x"
      by (rule power_int_increasing [OF lt]) simp
    also have "\<dots> = ulp32 x * 2 ^ 23"
      by (rule ulp32_fois_2_23 [symmetric])
    also have "\<dots> \<le> ulp32 x * of_int (arrondi_pair (x / ulp32 x))"
    proof -
      have "2 powi exposant x \<le> \<bar>x\<bar>"
        using lt exposant_bornes [of a] by (intro exposant_bas) simp
      then have "ulp32 x * 2 ^ 23 \<le> x"
        using x0 ulp32_fois_2_23 [of x] by simp
      then have "2 ^ 23 \<le> x / ulp32 x"
        using ulp32_pos [of x] by (simp add: field_simps)
      then have "of_int (2 ^ 23) \<le> x / ulp32 x"
        by simp
      then have "2 ^ 23 \<le> \<lfloor>x / ulp32 x\<rfloor>"
        by (simp only: le_floor_iff)
      then have "2 ^ 23 \<le> arrondi_pair (x / ulp32 x)"
        using arrondi_pair_floor [of "x / ulp32 x"] by linarith
      then have "(of_int (2 ^ 23) :: real) \<le> of_int (arrondi_pair (x / ulp32 x))"
        by (simp only: of_int_le_iff)
      then show ?thesis
        using ulp32_pos [of x] by (simp add: mult_left_mono)
    qed
    finally show ?thesis
      unfolding rx using assms(1) by simp
  qed
qed

text \<open>Between two binary32 values of any sign, the rounded value stays.\<close>

lemma arrondi32_entre:
  assumes "a \<le> x" and "x \<le> b" and "arrondi32 a = a" and "arrondi32 b = b"
    and "\<bar>a\<bar> < 2 powi 128" and "\<bar>b\<bar> < 2 powi 128"
  shows "a \<le> arrondi32 x \<and> arrondi32 x \<le> b"
proof (cases "0 \<le> x")
  case True
  have xb: "x < 2 powi 128"
    using assms(2,6) by simp
  have "arrondi32 x \<le> b"
    using True assms(2,4,6) by (intro arrondi32_sous_representable) simp_all
  moreover have "a \<le> arrondi32 x"
  proof (cases "0 \<le> a")
    case True
    then show ?thesis
      using assms(1,3) xb by (intro arrondi32_sur_representable)
  next
    case False
    then show ?thesis
      using arrondi32_nonneg [OF \<open>0 \<le> x\<close>] by simp
  qed
  ultimately show ?thesis
    by simp
next
  case False
  then have x0: "0 \<le> - x"
    by simp
  have xa: "- x < 2 powi 128"
    using assms(1,5) False by simp
  have ra: "arrondi32 (- a) = - a"
    using assms(3) by (simp add: arrondi32_minus)
  have rb: "arrondi32 (- b) = - b"
    using assms(4) by (simp add: arrondi32_minus)
  have "arrondi32 (- x) \<le> - a"
    using x0 assms(1,5) ra by (intro arrondi32_sous_representable) simp_all
  moreover have "- b \<le> arrondi32 (- x)"
  proof (cases "0 \<le> - b")
    case True
    then show ?thesis
      using assms(2) rb xa by (intro arrondi32_sur_representable) simp_all
  next
    case False
    then show ?thesis
      using arrondi32_nonneg [OF x0] by simp
  qed
  ultimately show ?thesis
    by (simp add: arrondi32_minus)
qed


section \<open>Little-endian octets of a 16-bit value\<close>

lemma and_255_take_bit: "(w :: 16 word) AND 0xFF = take_bit 8 w"
  by (simp add: take_bit_eq_mask mask_eq_exp_minus_1)

lemma unat_octet_faible: "unat (ucast ((v :: 16 word) AND 0xFF) :: octet) = unat v mod 256"
  by (simp only: and_255_take_bit unsigned_ucast_eq unsigned_take_bit_eq)
     (simp add: take_bit_eq_mod)

lemma unat_octet_fort:
  "unat (ucast (drop_bit 8 (v :: 16 word) AND 0xFF) :: octet) = unat v div 256"
proof -
  have "unat v < 2 ^ 16"
    using unsigned_less [of v, where ?'a = nat] by simp
  then have petit: "unat v div 256 < 256"
    by simp
  have "unat (ucast (drop_bit 8 v AND 0xFF) :: octet) = unat (drop_bit 8 v) mod 256"
    by (rule unat_octet_faible)
  also have "unat (drop_bit 8 v) = unat v div 256"
    by (simp add: drop_bit_eq_div unat_div)
  finally show ?thesis
    using petit by simp
qed

lemma length_ecrire_uint16_le [simp]:
  "length (ecrire_uint16_le buffer p v) = length buffer"
  by (simp add: ecrire_uint16_le_def)

lemma nth_ecrire_uint16_le_autre:
  "j \<noteq> p \<Longrightarrow> j \<noteq> p + 1 \<Longrightarrow> ecrire_uint16_le buffer p v ! j = buffer ! j"
  by (simp add: ecrire_uint16_le_def)

text \<open>The six octets of one axis block after its three writes.\<close>

lemma ecrire_bloc_axe:
  assumes "ptr + 5 < length buffer" and "d < 6"
  shows "ecrire_uint16_le (ecrire_uint16_le (ecrire_uint16_le buffer ptr p) (ptr + 2) v)
           (ptr + 4) c ! (ptr + d)
         = [ucast (p AND 0xFF), ucast (drop_bit 8 p AND 0xFF),
            ucast (v AND 0xFF), ucast (drop_bit 8 v AND 0xFF),
            ucast (c AND 0xFF), ucast (drop_bit 8 c AND 0xFF)] ! d"
proof -
  from assms(2) consider "d = 0" | "d = 1" | "d = 2" | "d = 3" | "d = 4" | "d = 5"
    by linarith
  then show ?thesis
    using assms(1) by cases (simp_all add: ecrire_uint16_le_def nth_list_update)
qed

lemma unat_cast_uint16:
  assumes "5500 \<le> x" and "x \<le> 8000"
  shows "5500 \<le> unat (cast_uint16 x) \<and> unat (cast_uint16 x) \<le> 8000"
proof -
  have bas: "5500 \<le> \<lfloor>x\<rfloor>" and haut: "\<lfloor>x\<rfloor> \<le> 8000"
    using assms by linarith+
  have "0 \<le> x"
    using assms by simp
  then have "uint (cast_uint16 x) = \<lfloor>x\<rfloor>"
    using bas haut by (simp add: cast_uint16_def uint_word_of_int)
  then have "unat (cast_uint16 x) = nat \<lfloor>x\<rfloor>"
    by (simp add: unat_eq_nat_uint)
  then show ?thesis
    using bas haut by linarith
qed

section \<open>The loop of the frame generator\<close>

declare generer_trame_boucle.simps [simp del]

lemma generer_trame_boucle_pas:
  "i < NB_AXES \<Longrightarrow>
   generer_trame_boucle bruts a c i ptr buffer =
     generer_trame_boucle bruts a c (i + 1) (ptr + 6)
       (ecrire_uint16_le
          (ecrire_uint16_le (ecrire_uint16_le buffer ptr (position_brut (bruts i)))
             (ptr + 2) (vitesse_brut (bruts i)))
          (ptr + 4) (if int i = a then c else courant_brut (bruts i)))"
  by (subst generer_trame_boucle.simps) (simp add: Let_def)

lemma generer_trame_boucle_fin:
  "\<not> i < NB_AXES \<Longrightarrow> generer_trame_boucle bruts a c i ptr buffer = buffer"
  by (subst generer_trame_boucle.simps) simp

lemma length_generer_trame_boucle [simp]:
  "length (generer_trame_boucle bruts a c i ptr buffer) = length buffer"
proof (induction bruts a c i ptr buffer rule: generer_trame_boucle.induct)
  case (1 bruts a c i ptr buffer)
  show ?case
  proof (cases "i < NB_AXES")
    case True
    with "1.IH" show ?thesis
      by (simp add: generer_trame_boucle_pas)
  next
    case False
    then show ?thesis
      by (simp add: generer_trame_boucle_fin)
  qed
qed

text \<open>The loop writes at the pointer and beyond: what lies before it stays.\<close>

lemma generer_trame_boucle_avant:
  "j < ptr \<Longrightarrow> generer_trame_boucle bruts a c i ptr buffer ! j = buffer ! j"
proof (induction bruts a c i ptr buffer rule: generer_trame_boucle.induct)
  case (1 bruts a c i ptr buffer)
  show ?case
  proof (cases "i < NB_AXES")
    case True
    with "1.IH" "1.prems" show ?thesis
      by (simp add: generer_trame_boucle_pas nth_ecrire_uint16_le_autre)
  next
    case False
    then show ?thesis
      by (simp add: generer_trame_boucle_fin)
  qed
qed

text \<open>
  The block of axis \<open>k\<close> holds its position, its velocity and its current in this order,
  each low octet first; the current is the alert current when \<open>k\<close> is the alert axis.
\<close>

lemma generer_trame_boucle_bloc:
  "i \<le> k \<Longrightarrow> k < NB_AXES \<Longrightarrow> ptr + 6 * (NB_AXES - i) \<le> length buffer \<Longrightarrow> d < 6 \<Longrightarrow>
   w = (if int k = a then c else courant_brut (bruts k)) \<Longrightarrow>
   generer_trame_boucle bruts a c i ptr buffer ! (ptr + 6 * (k - i) + d)
     = [ucast (position_brut (bruts k) AND 0xFF),
        ucast (drop_bit 8 (position_brut (bruts k)) AND 0xFF),
        ucast (vitesse_brut (bruts k) AND 0xFF),
        ucast (drop_bit 8 (vitesse_brut (bruts k)) AND 0xFF),
        ucast (w AND 0xFF), ucast (drop_bit 8 w AND 0xFF)] ! d"
proof (induction bruts a c i ptr buffer rule: generer_trame_boucle.induct)
  case (1 bruts a c i ptr buffer)
  from "1.prems" have lt: "i < NB_AXES"
    by simp
  let ?b3 = "ecrire_uint16_le
               (ecrire_uint16_le (ecrire_uint16_le buffer ptr (position_brut (bruts i)))
                  (ptr + 2) (vitesse_brut (bruts i)))
               (ptr + 4) (if int i = a then c else courant_brut (bruts i))"
  have pas: "generer_trame_boucle bruts a c i ptr buffer =
             generer_trame_boucle bruts a c (i + 1) (ptr + 6) ?b3"
    by (rule generer_trame_boucle_pas [OF lt])
  show ?case
  proof (cases "i = k")
    case True
    have len: "ptr + 5 < length buffer"
      using "1.prems"(3) lt by simp
    have "generer_trame_boucle bruts a c (i + 1) (ptr + 6) ?b3 ! (ptr + d) = ?b3 ! (ptr + d)"
      using "1.prems"(4) by (intro generer_trame_boucle_avant) simp
    also note ecrire_bloc_axe [OF len "1.prems"(4)]
    finally show ?thesis
      unfolding pas using True "1.prems"(5) by simp
  next
    case False
    with "1.prems" have lt2: "i + 1 \<le> k"
      by simp
    have e: "ptr + 6 + 6 * (k - (i + 1)) = ptr + 6 * (k - i)"
      using lt2 by simp
    have "ptr + 6 + 6 * (NB_AXES - (i + 1)) \<le> length buffer"
      using "1.prems"(3) lt by simp
    then have len: "ptr + 6 + 6 * (NB_AXES - (i + 1)) \<le> length ?b3"
      by simp
    from "1.IH" [OF lt refl refl refl refl lt2 "1.prems"(2) len "1.prems"(4,5)]
    show ?thesis
      unfolding pas e .
  qed
qed

text \<open>The header: the two sync octets, then the sequence number before its increment.\<close>

lemma generer_trame_entete:
  assumes "3 \<le> length buffer"
  shows "snd (generer_trame sim tirages bruts buffer) ! 0 = SYNC_H \<and>
         snd (generer_trame sim tirages bruts buffer) ! 1 = SYNC_L \<and>
         snd (generer_trame sim tirages bruts buffer) ! 2 = sim_sequence sim"
proof -
  have "0 < length buffer" and "1 < length buffer" and "2 < length buffer"
    using assms by auto
  then show ?thesis
    by (simp add: generer_trame_def Let_def generer_trame_boucle_avant)
qed

lemma length_generer_trame:
  "length (snd (generer_trame sim tirages bruts buffer)) = length buffer"
  by (simp add: generer_trame_def Let_def)

lemma generer_trame_sequence:
  "sim_sequence (fst (generer_trame sim tirages bruts buffer)) = sim_sequence sim + 1"
  by (simp add: generer_trame_def Let_def)

lemma trame_exemple_octets:
  "trame_exemple =
     [0xAA, 0x55, 5,
      100, 0, 255, 255, 232, 3,  100, 0, 255, 255, 232, 3,  100, 0, 255, 255, 232, 3,
      100, 0, 255, 255, 232, 3,  100, 0, 255, 255, 232, 3,  100, 0, 255, 255, 232, 3]"
  by code_simp

section \<open>Alert threshold\<close>

text \<open>
  What \<open>est_en_alerte\<close> decides, in the units of the conversion: the threshold is compared
  as if it were a number of milliamperes.
\<close>

lemma est_en_alerte_iff:
  "est_en_alerte axe seuil \<longleftrightarrow> courant_en_amperes (courant axe) > seuil / 1000"
  by (simp add: est_en_alerte_def courant_en_amperes_def)

text \<open>
  Claim C1: \<open>est_en_alerte axe seuil\<close> is true exactly when the current converted to
  amperes exceeds the threshold, and false when the two are equal.
  The code compares the raw current with the threshold instead. At 5000 mA and the
  default threshold of 5.0 A the converted current equals the threshold, and at 1000 mA
  it is 1.0 A, below the threshold: \<open>est_en_alerte\<close> returns true both times.
\<close>

theorem est_en_alerte_compare_milliamperes:
  "est_en_alerte \<lparr>position = 0, vitesse = 0, courant = 5000\<rparr> seuil_courant_defaut = True \<and>
   courant_en_amperes 5000 = seuil_courant_defaut \<and>
   \<not> courant_en_amperes 5000 > seuil_courant_defaut \<and>
   est_en_alerte \<lparr>position = 0, vitesse = 0, courant = 1000\<rparr> seuil_courant_defaut = True \<and>
   \<not> courant_en_amperes 1000 > seuil_courant_defaut"
  by (simp add: est_en_alerte_def courant_en_amperes_def seuil_courant_defaut_def)

section \<open>Frame validity\<close>

lemma trame_valide_iff:
  "trame_valide n trame \<longleftrightarrow> sync1 trame = SYNC_H \<and> sync2 trame = SYNC_L \<and> n = 39"
  by (simp add: trame_valide_def SYNC_H_def SYNC_L_def)

text \<open>
  Claim C2: \<open>trame_valide\<close> is true exactly when the two sync octets are 0xAA and 0x55, and
  nothing else affects the result.
  The code also requires \<^verbatim>\<open>sizeof(trame) == 39\<close>, the size of a pointer: a frame whose sync
  octets are correct is rejected, with pointers of 8 octets and with pointers of 4.
\<close>

theorem trame_valide_rejette_sync_correcte:
  "trame_valide 8 (trame_zero\<lparr>sync1 := 0xAA, sync2 := 0x55\<rparr>) = False \<and>
   trame_valide 4 (trame_zero\<lparr>sync1 := 0xAA, sync2 := 0x55\<rparr>) = False \<and>
   sync1 (trame_zero\<lparr>sync1 := 0xAA, sync2 := 0x55\<rparr>) = SYNC_H \<and>
   sync2 (trame_zero\<lparr>sync1 := 0xAA, sync2 := 0x55\<rparr>) = SYNC_L"
  by (simp add: trame_valide_def trame_zero_def SYNC_H_def SYNC_L_def)

section \<open>Search for the sync marker\<close>

declare trouver_sync_boucle.simps [simp del]

text \<open>
  Where the marker stands at index \<open>m\<close>, with its second octet inside the buffer, and no
  octet before \<open>m\<close> is 0xAA, the search from any \<open>i \<le> m\<close> returns \<open>m\<close>.
\<close>

lemma trouver_sync_boucle_premiere_sync:
  assumes "\<forall>j < m. buffer ! j \<noteq> SYNC_H"
    and "m + 1 < length buffer" and "m < taille"
    and "buffer ! m = SYNC_H" and "buffer ! (m + 1) = SYNC_L"
    and "i \<le> m"
  shows "trouver_sync_boucle buffer taille i = Inr (int m)"
  using assms(6)
proof (induction "m - i" arbitrary: i)
  case 0
  then have "i = m"
    by simp
  then show ?case
    using assms(2-5) by (subst trouver_sync_boucle.simps) (simp add: lire_def)
next
  case (Suc d)
  then have lt: "i < m" and d: "d = m - (i + 1)" and le: "i + 1 \<le> m"
    by simp_all
  have "buffer ! i \<noteq> SYNC_H"
    using assms(1) lt by simp
  moreover have "trouver_sync_boucle buffer taille (i + 1) = Inr (int m)"
    by (rule Suc.hyps(1) [OF d le])
  ultimately show ?case
    using lt assms(2,3) by (subst trouver_sync_boucle.simps) (simp add: lire_def)
qed

text \<open>After \<open>N\<close> octets none of which is 0xAA, followed by the marker, the result is \<open>N\<close>.\<close>

lemma trouver_sync_apres_bruit:
  assumes "\<forall>b \<in> set bruit. b \<noteq> SYNC_H"
  shows "trouver_sync (bruit @ SYNC_H # SYNC_L # reste)
           (length (bruit @ SYNC_H # SYNC_L # reste)) 0 = Inr (int (length bruit))"
  unfolding trouver_sync_def
proof (rule trouver_sync_boucle_premiere_sync)
  show "\<forall>j < length bruit. (bruit @ SYNC_H # SYNC_L # reste) ! j \<noteq> SYNC_H"
    using assms by (simp add: nth_append)
qed (simp_all add: nth_append)

text \<open>
  A buffer that ends with 0xAA and holds no marker from \<open>i\<close> on: the search reaches the
  last octet and reads the one after it.
\<close>

lemma trouver_sync_boucle_dernier_octet:
  assumes "buffer \<noteq> []" and "last buffer = SYNC_H"
    and "\<forall>j. i \<le> j \<and> j + 1 < length buffer \<longrightarrow>
           \<not> (buffer ! j = SYNC_H \<and> buffer ! (j + 1) = SYNC_L)"
    and "i < length buffer"
  shows "trouver_sync_boucle buffer (length buffer) i = Inl HorsLimites"
  using assms(3,4)
proof (induction "length buffer - 1 - i" arbitrary: i)
  case 0
  then have i: "i = length buffer - 1"
    by simp
  then have "buffer ! i = SYNC_H"
    using assms(1,2) by (simp add: last_conv_nth)
  then show ?case
    using i assms(1) by (subst trouver_sync_boucle.simps) (simp add: lire_def)
next
  case (Suc d)
  then have lt: "i + 1 < length buffer" and d: "d = length buffer - 1 - (i + 1)"
    by simp_all
  have nosync: "\<not> (buffer ! i = SYNC_H \<and> buffer ! (i + 1) = SYNC_L)"
    using Suc.prems(1) lt by simp
  have "\<forall>j. i + 1 \<le> j \<and> j + 1 < length buffer \<longrightarrow>
          \<not> (buffer ! j = SYNC_H \<and> buffer ! (j + 1) = SYNC_L)"
    using Suc.prems(1) by simp
  from Suc.hyps(1) [OF d this lt]
  have "trouver_sync_boucle buffer (length buffer) (i + 1) = Inl HorsLimites" .
  then show ?case
    using lt nosync by (subst trouver_sync_boucle.simps) (auto simp: lire_def)
qed

text \<open>
  Claim C3: \<open>trouver_sync\<close> returns the lowest index at or after \<open>debut\<close> where the marker
  stands, reads only indices below \<open>taille\<close>, and returns -1 when there is none, also when
  the buffer ends with a single 0xAA.
  The loop runs while \<open>i < taille\<close> and reads \<^verbatim>\<open>buffer[i+1]\<close>: on the three octets 01 02 AA, and
  on the single octet AA, it reads the octet after the end of the buffer and does not
  return -1.
\<close>

theorem trouver_sync_lit_apres_la_fin:
  "trouver_sync [0x01, 0x02, 0xAA] 3 0 = Inl HorsLimites \<and>
   trouver_sync [0xAA] 1 0 = Inl HorsLimites"
  by (simp add: trouver_sync_def trouver_sync_boucle.simps lire_def SYNC_H_def SYNC_L_def)

section \<open>Decoding\<close>

text \<open>The result of \<open>decoder_trame\<close> does not depend on the octets it is given.\<close>

lemma decoder_trame_independant:
  "decoder_trame buffer trame = decoder_trame buffer' trame"
  by (simp add: decoder_trame_def)

text \<open>
  Claim C4: decoding the 39 octets that encode a frame gives the frame back, each field
  read little-endian in the order position, velocity, current.
  \<open>decoder_trame\<close> writes nothing: given the octets of a frame of sequence number 5 and a
  zeroed structure, it leaves the structure zeroed, sequence number 0, and returns no
  value.
\<close>

theorem decoder_trame_laisse_la_trame:
  "length trame_exemple = 39 \<and> trame_exemple ! 2 = 5 \<and>
   decoder_trame trame_exemple trame_zero = (trame_zero, None) \<and>
   sequence (fst (decoder_trame trame_exemple trame_zero)) = 0"
  by (simp add: trame_exemple_octets decoder_trame_def trame_zero_def)

text \<open>
  Claim C8: with fewer than 39 octets from the sync offset on, the extraction reports
  insufficient data and the scan stops.
  On the first 38 octets of a frame the marker is found at offset 0, and \<open>decoder_trame\<close>,
  which is not told how many octets remain, returns no value, so it does not report a
  failure; \<open>main\<close> counts none of the 38 octets as noise.
\<close>

theorem decoder_trame_ignore_la_troncature:
  "length (take 38 trame_exemple) = 38 \<and>
   trouver_sync (take 38 trame_exemple) 38 0 = Inr 0 \<and>
   decoder_trame (take 38 trame_exemple) trame_zero = (trame_zero, None) \<and>
   snd (decoder_trame (take 38 trame_exemple) trame_zero) \<noteq> Some False \<and>
   octets_bruit (main_traitement (take 38 trame_exemple)) = 0"
  by (simp add: trame_exemple_octets decoder_trame_def main_traitement_def
      Statistiques_defaut_def trouver_sync_def trouver_sync_boucle.simps lire_def
      SYNC_H_def SYNC_L_def)

section \<open>Size of a frame\<close>

lemma length_elements: "length (elements a) = NB_AXES"
  by (cases a) (simp add: NB_AXES_def)

text \<open>
  Claim C5: the decoded frame holds exactly 6 axis samples, and a frame on the wire is 39
  octets, 3 of header and six blocks of 6.
  The constants give 39 = 3 + 6 * 6 and \<open>generer_trame\<close> fills a buffer of that size, but
  every value of the structure \<open>Trame\<close> holds twelve axis samples, six in \<open>axe1\<close> and six
  in \<open>axe2\<close>.
\<close>

theorem Trame_contient_douze_axes:
  "length (elements (axe1 trame)) + length (elements (axe2 trame)) = 12 \<and>
   NB_AXES = 6 \<and> TAILLE_ENTETE = 3 \<and> NB_AXES * TAILLE_AXE = 36 \<and> TAILLE_TRAME = 39 \<and>
   length (snd (generer_trame sim tirages bruts (replicate TAILLE_TRAME 0))) = 39"
  by (simp add: length_elements length_generer_trame)
     (simp add: NB_AXES_def TAILLE_ENTETE_def TAILLE_AXE_def TAILLE_TRAME_def)

section \<open>Scan loop and statistics\<close>

lemma main_traitement_compteurs:
  "octets_lus (main_traitement buffer) = length buffer \<and>
   octets_bruit (main_traitement buffer) = 0 \<and>
   trames_valides (main_traitement buffer) = 0"
  by (simp add: main_traitement_def Statistiques_defaut_def)

text \<open>
  Claim C6: the scan loop terminates and classifies every octet, so that
  \<open>octets_lus = octets_bruit + 39 * trames_valides\<close> on a buffer of well-formed frames and
  filler.
  \<open>main\<close> has no scan loop. On a buffer that is one well-formed frame it reports 39 octets
  read, no noise and no valid frame, and the equation fails.
\<close>

theorem main_traitement_ne_classe_aucun_octet:
  "length trame_exemple = 39 \<and>
   main_analyseur trame_exemple =
     Inr (\<lparr>octets_lus = 39, trames_valides = 0, trames_alerte = 0,
            sequence_min = 255, sequence_max = 0, octets_bruit = 0\<rparr>,
          [(OctetsLus, 39), (OctetsBruit, 0), (TramesValides, 0), (TramesAlerte, 0)]) \<and>
   octets_lus (main_traitement trame_exemple) \<noteq>
     octets_bruit (main_traitement trame_exemple)
       + 39 * trames_valides (main_traitement trame_exemple)"
  by (simp add: trame_exemple_octets main_analyseur_def main_traitement_def
      Statistiques_defaut_def ecrire_statistiques_def Let_def)

text \<open>Calling \<open>analyser_trame\<close> on one frame after the other leaves the statistics as they were.\<close>

lemma foldl_analyser_trame:
  "foldl (\<lambda>stats trame. fst (analyser_trame trame stats seuil)) stats trames = stats"
  by (induction trames) (simp_all add: analyser_trame_def)

text \<open>
  Claim C7: the lost-frame estimate of the final statistics accounts for the wrap of the
  sequence number and is never negative; frames numbered 250 to 255 and then 0 to 2 give
  an estimate of zero, with \<open>sequence_min = 0\<close> and \<open>sequence_max = 255\<close>.
  \<open>analyser_trame\<close> updates no statistic: after these nine frames \<open>sequence_min\<close> is still
  255 and \<open>sequence_max\<close> still 0, and the summary of nine valid frames holds six numbers,
  none of which is an estimate of lost frames.
\<close>

theorem analyser_trame_ignore_la_sequence:
  "map sequence trames_250_a_2 = [250, 251, 252, 253, 254, 255, 0, 1, 2] \<and>
   map (\<lambda>trame. snd (analyser_trame trame Statistiques_defaut seuil_courant_defaut))
     trames_250_a_2 = [False, False, False, False, False, False, False, False, False] \<and>
   foldl (\<lambda>stats trame. fst (analyser_trame trame stats seuil_courant_defaut))
     Statistiques_defaut trames_250_a_2 = Statistiques_defaut \<and>
   sequence_min Statistiques_defaut = 255 \<and> sequence_max Statistiques_defaut = 0 \<and>
   ecrire_statistiques (Statistiques_defaut\<lparr>octets_lus := 351, trames_valides := 9\<rparr>) =
     [(OctetsLus, 351), (OctetsBruit, 0), (TramesValides, 9), (TramesAlerte, 0),
      (SequenceMin, 255), (SequenceMax, 0)]"
  by (simp add: trames_250_a_2_def analyser_trame_def Statistiques_defaut_def
      ecrire_statistiques_def trame_zero_def)

section \<open>Motion of one axis\<close>


lemma axe_cas:
  assumes "axe < NB_AXES"
  obtains "axe = 0" | "axe = 1" | "axe = 2" | "axe = 3" | "axe = 4" | "axe = 5"
  using assms unfolding NB_AXES_def by linarith





lemma limites_ordonnees: "axe < NB_AXES \<Longrightarrow> POSITION_MIN_DEG ! axe \<le> POSITION_MAX_DEG ! axe"
  by (erule axe_cas) (simp_all add: POSITION_MIN_DEG_def POSITION_MAX_DEG_def)


lemma simuler_butees_etat:
  assumes "POSITION_MIN_DEG ! axe \<le> POSITION_MAX_DEG ! axe"
  shows "POSITION_MIN_DEG ! axe \<le> position_deg (simuler_butees axe a) \<and>
         position_deg (simuler_butees axe a) \<le> POSITION_MAX_DEG ! axe \<and>
         (vitesse_deg_s (simuler_butees axe a) = vitesse_deg_s a \<or>
          vitesse_deg_s (simuler_butees axe a) = 0) \<and>
         (position_deg a < POSITION_MIN_DEG ! axe \<or> POSITION_MAX_DEG ! axe < position_deg a
            \<longrightarrow> vitesse_deg_s (simuler_butees axe a) = 0)"
  using assms by (auto simp: simuler_butees_def Let_def)

lemma simuler_courant_etat:
  "position_deg (simuler_courant z axe a) = position_deg a \<and>
   vitesse_deg_s (simuler_courant z axe a) = vitesse_deg_s a \<and>
   0 \<le> courant_base_a (simuler_courant z axe a)"
  by (simp add: simuler_courant_def Let_def)

lemma invariant_axe_arrondi: "invariant_axe axe a \<Longrightarrow> invariant_arrondi axe a"
  using ulp32_pos [of "VITESSE_MAX_DEG_S ! axe"]
  by (simp add: invariant_axe_def invariant_arrondi_def VITESSE_TOLEREE_def)

text \<open>
  The position and the current after a tick, from any state: the two limits and the floor
  at zero are comparisons and assignments.
\<close>

lemma simuler_axe_position_courant:
  assumes "axe < NB_AXES"
  shows "POSITION_MIN_DEG ! axe \<le> position_deg (simuler_axe dt t axe a) \<and>
         position_deg (simuler_axe dt t axe a) \<le> POSITION_MAX_DEG ! axe \<and>
         0 \<le> courant_base_a (simuler_axe dt t axe a)"
  using simuler_butees_etat [OF limites_ordonnees [OF assms], of "simuler_mouvement dt t axe a"]
    simuler_courant_etat [of "tirage_bruit t" axe "simuler_butees axe (simuler_mouvement dt t axe a)"]
  by (simp add: simuler_axe_def)






section \<open>Alert injection\<close>

text \<open>The alert current as the distribution returns it lies between its two bounds.\<close>

lemma uniforme_courant_bornes:
  assumes "0 \<le> u" and "u < 1"
  shows "5500 \<le> uniforme 5500 8000 u \<and> uniforme 5500 8000 u \<le> 8000"
proof -
  have r: "arrondi32 (8000 - 5500) = 2500" "arrondi32 2500 = 2500"
    "arrondi32 5500 = 5500" "arrondi32 8000 = 8000"
    by code_simp+
  have "0 \<le> u * 2500" and "u * 2500 \<le> 2500"
    using assms by simp_all
  then have "0 \<le> arrondi32 (u * 2500) \<and> arrondi32 (u * 2500) \<le> 2500"
    using r(2) by (intro arrondi32_entre) simp_all
  then have "5500 \<le> arrondi32 (u * 2500) + 5500" and "arrondi32 (u * 2500) + 5500 \<le> 8000"
    by simp_all
  then have "5500 \<le> arrondi32 (arrondi32 (u * 2500) + 5500) \<and>
             arrondi32 (arrondi32 (u * 2500) + 5500) \<le> 8000"
    using r(3,4) by (intro arrondi32_entre) simp_all
  then show ?thesis
    unfolding uniforme_def r(1) .
qed

text \<open>
  With the largest canonical draw the product \<open>(1 - 1 / 2 ^ 24) * 2500\<close> rounds to
  \<open>2500 - 1 / 2 ^ 12\<close>, and the sum with 5500 lies halfway between two binary32 values: it
  rounds to the even one, 8000.
\<close>

lemma tirages_8000_valeurs:
  "uniforme 0 1 (tirage_alerte tirages_8000) = 0"
  "uniforme 5500 8000 (tirage_courant tirages_8000) = 8000"
   apply (simp add: uniforme_def tirages_8000_def)
  apply code_simp
  done

lemma boucle_8000:
  "generer_trame_boucle bruts_exemple 2 8000 0 3
     ((replicate 39 0)[0 := SYNC_H, 1 := SYNC_L, 2 := 5]) =
     [0xAA, 0x55, 5,
      100, 0, 255, 255, 232, 3,  100, 0, 255, 255, 232, 3,  100, 0, 255, 255, 64, 31,
      100, 0, 255, 255, 232, 3,  100, 0, 255, 255, 232, 3,  100, 0, 255, 255, 232, 3]"
  by code_simp

lemma trame_8000_octets:
  "snd (generer_trame sim_exemple tirages_8000 bruts_exemple (replicate 39 0)) =
     [0xAA, 0x55, 5,
      100, 0, 255, 255, 232, 3,  100, 0, 255, 255, 232, 3,  100, 0, 255, 255, 64, 31,
      100, 0, 255, 255, 232, 3,  100, 0, 255, 255, 232, 3,  100, 0, 255, 255, 232, 3]"
proof -
  have c: "cast_uint16 8000 = 8000"
    by (simp add: cast_uint16_def)
  have a: "tirage_axe tirages_8000 = 2" "sim_sequence sim_exemple = 5"
    "(0::real) < sim_prob_alerte sim_exemple"
    by (simp_all add: tirages_8000_def sim_exemple_def)
  have "snd (generer_trame sim_exemple tirages_8000 bruts_exemple (replicate 39 0)) =
        generer_trame_boucle bruts_exemple 2 8000 0 3
          ((replicate 39 0)[0 := SYNC_H, 1 := SYNC_L, 2 := 5])"
    by (simp add: generer_trame_def Let_def tirages_8000_valeurs c a)
  then show ?thesis
    by (simp only: boucle_8000)
qed

text \<open>
  Claim C10: when \<open>generer_trame\<close> injects an alert, the raw current that replaces the
  simulated one is drawn from \<open>[5500, 8000)\<close> milliamperes, so the current encoded for some
  axis is at least 5.5 A and above the default threshold 5.0 of the analyser.
  As amended: the raw current lies in \<open>[5500, 8000]\<close>, the upper end included. For every
  canonical draw in \<open>[0, 1)\<close> the frame carries it little-endian in the current field of
  the drawn axis, and converted to amperes it is at least 5.5 and above the default
  threshold. The conversion \<open>courant_en_amperes\<close> is exact division here; the binary32
  quotient of the source is the nearest \<^verbatim>\<open>float\<close>, and 5.5 is one, so the bound holds for it as
  well.
\<close>

theorem generer_trame_alerte_depasse_seuil:
  assumes alerte: "uniforme 0 1 (tirage_alerte tirages) < sim_prob_alerte sim"
    and valides: "tirages_valides tirages"
    and len: "length buffer = TAILLE_TRAME"
    and k: "k = nat (tirage_axe tirages)"
    and c: "c = cast_uint16 (uniforme 5500 8000 (tirage_courant tirages))"
    and trame: "trame = snd (generer_trame sim tirages bruts buffer)"
  shows "k < NB_AXES \<and> 5500 \<le> unat c \<and> unat c \<le> 8000 \<and>
         unat (trame ! (7 + 6 * k)) + 256 * unat (trame ! (8 + 6 * k)) = unat c \<and>
         5.5 \<le> courant_en_amperes c \<and> seuil_courant_defaut < courant_en_amperes c"
proof -
  have kl: "k < NB_AXES" and ik: "int k = tirage_axe tirages"
    using valides k by (auto simp: tirages_valides_def NB_AXES_def)
  have "5500 \<le> uniforme 5500 8000 (tirage_courant tirages) \<and>
        uniforme 5500 8000 (tirage_courant tirages) \<le> 8000"
    using valides by (intro uniforme_courant_bornes) (simp_all add: tirages_valides_def)
  then have cb: "5500 \<le> unat c \<and> unat c \<le> 8000"
    unfolding c by (intro unat_cast_uint16) simp_all
  let ?b0 = "buffer[0 := SYNC_H, 1 := SYNC_L, 2 := sim_sequence sim]"
  have t: "trame = generer_trame_boucle bruts (tirage_axe tirages) c 0 3 ?b0"
    using alerte by (simp add: trame generer_trame_def Let_def c)
  have l0: "3 + 6 * (NB_AXES - 0) \<le> length ?b0"
    using len by (simp add: TAILLE_TRAME_def TAILLE_ENTETE_def NB_AXES_def TAILLE_AXE_def)
  have w: "c = (if int k = tirage_axe tirages then c else courant_brut (bruts k))"
    using ik by simp
  have z: "0 \<le> k"
    by simp
  note bloc = generer_trame_boucle_bloc
         [where i = 0 and k = k and ptr = 3 and buffer = ?b0 and w = c and c = c
            and a = "tirage_axe tirages" and bruts = bruts, OF z kl l0 _ w]
  have "trame ! (3 + 6 * (k - 0) + 4) = ucast (c AND 0xFF)"
    and "trame ! (3 + 6 * (k - 0) + 5) = ucast (drop_bit 8 c AND 0xFF)"
    unfolding t using bloc [of 4] bloc [of 5] by simp_all
  then have "trame ! (7 + 6 * k) = ucast (c AND 0xFF)"
    and "trame ! (8 + 6 * k) = ucast (drop_bit 8 c AND 0xFF)"
    by (simp_all add: add.commute)
  then have le: "unat (trame ! (7 + 6 * k)) + 256 * unat (trame ! (8 + 6 * k)) = unat c"
    using unat_octet_faible [of c] unat_octet_fort [of c] by arith
  have r: "5500 \<le> real (unat c)"
    using cb by linarith
  have "5.5 \<le> courant_en_amperes c" and "seuil_courant_defaut < courant_en_amperes c"
    unfolding courant_en_amperes_def seuil_courant_defaut_def using r by linarith+
  with kl cb le show ?thesis
    by simp
qed

text \<open>
  The theorem at the example: the canonical draw \<open>1 / 128\<close> is below the probability 0.02,
  the axis drawn is 2 and the canonical draw \<open>1 / 4\<close> gives 6125, so octets 19 and 20 of the
  frame carry 6125.
\<close>

theorem generer_trame_alerte_depasse_seuil_temoin:
  "uniforme 0 1 (tirage_alerte tirages_alerte) < sim_prob_alerte sim_exemple \<and>
   tirages_valides tirages_alerte \<and>
   length (replicate 39 (0 :: octet)) = TAILLE_TRAME \<and>
   nat (tirage_axe tirages_alerte) = 2 \<and>
   unat (cast_uint16 (uniforme 5500 8000 (tirage_courant tirages_alerte))) = 6125 \<and>
   unat (snd (generer_trame sim_exemple tirages_alerte bruts_exemple (replicate 39 0)) ! 19)
     + 256 *
       unat (snd (generer_trame sim_exemple tirages_alerte bruts_exemple (replicate 39 0)) ! 20)
     = 6125 \<and>
   5.5 \<le> courant_en_amperes (cast_uint16 (uniforme 5500 8000 (tirage_courant tirages_alerte))) \<and>
   seuil_courant_defaut
     < courant_en_amperes (cast_uint16 (uniforme 5500 8000 (tirage_courant tirages_alerte)))"
proof -
  have h1: "uniforme 0 1 (tirage_alerte tirages_alerte) < sim_prob_alerte sim_exemple"
    by code_simp
  have h2: "tirages_valides tirages_alerte"
    by (simp add: tirages_valides_def tirages_alerte_def NB_AXES_def)
  have h3: "length (replicate 39 (0 :: octet)) = TAILLE_TRAME"
    by (simp add: TAILLE_TRAME_def TAILLE_ENTETE_def NB_AXES_def TAILLE_AXE_def)
  have k: "nat (tirage_axe tirages_alerte) = 2"
    by (simp add: tirages_alerte_def)
  have "uniforme 5500 8000 (tirage_courant tirages_alerte) = 6125"
    by code_simp
  then have c: "unat (cast_uint16 (uniforme 5500 8000 (tirage_courant tirages_alerte))) = 6125"
    by (simp add: cast_uint16_def)
  from generer_trame_alerte_depasse_seuil [OF h1 h2 h3 refl refl refl, of bruts_exemple]
  show ?thesis
    using h1 h2 h3 by (simp add: k c)
qed

text \<open>
  The claim as stated fails at the largest canonical draw, \<open>1 - 1 / 2 ^ 24\<close>: the alert is
  injected on the axis of index 2 and the raw current written is 8000, octets 64 and 31,
  which is not below 8000.
\<close>

theorem generer_trame_alerte_atteint_8000:
  "tirages_valides tirages_8000 \<and>
   uniforme 0 1 (tirage_alerte tirages_8000) < sim_prob_alerte sim_exemple \<and>
   uniforme 5500 8000 (tirage_courant tirages_8000) = 8000 \<and>
   unat (cast_uint16 (uniforme 5500 8000 (tirage_courant tirages_8000))) = 8000 \<and>
   \<not> unat (cast_uint16 (uniforme 5500 8000 (tirage_courant tirages_8000))) < 8000 \<and>
   snd (generer_trame sim_exemple tirages_8000 bruts_exemple (replicate 39 0)) ! 19 = 64 \<and>
   snd (generer_trame sim_exemple tirages_8000 bruts_exemple (replicate 39 0)) ! 20 = 31"
proof -
  have v: "tirages_valides tirages_8000"
    by (simp add: tirages_valides_def tirages_8000_def NB_AXES_def)
  have p: "(0::real) < sim_prob_alerte sim_exemple"
    by (simp add: sim_exemple_def)
  have c: "unat (cast_uint16 8000) = 8000"
    by (simp add: cast_uint16_def)
  show ?thesis
    by (simp add: v p c tirages_8000_valeurs trame_8000_octets)
qed

end
